theory Spec2Isabelle
  imports Main "HOL-Library.Word"
begin

section \<open>Parcel box, ESP32 side: protocol constants, cloud paths and WiFi reconnection\<close>

text \<open>
  The sources are \<^verbatim>\<open>PINS_CONFIG.h\<close> (pin, timing and protocol macros),
  \<^verbatim>\<open>FirebaseConfig.h\<close> (declarations of the cloud configuration accessors) and
  \<^verbatim>\<open>WiFiManagerCustom.h/.cpp\<close> (the WiFi connection manager). Macros become
  constants, the class becomes a record with one function per method, and the calls a
  method makes on the WiFi driver and the serial port are returned as a list.
\<close>

subsection \<open>\<^verbatim>\<open>PINS_CONFIG.h\<close>: timing and protocol macros\<close>

text \<open>Timing constants, in milliseconds.\<close>

definition ARDUINO_RESPONSE_TIMEOUT :: nat where
  "ARDUINO_RESPONSE_TIMEOUT = 5000"

text \<open>Arduino AT-style commands.\<close>

definition CMD_LOCK_OPEN :: string where
  "CMD_LOCK_OPEN = ''AT+LOCK''"

definition CMD_LOCK_CLOSE :: string where
  "CMD_LOCK_CLOSE = ''AT-LOCK''"

definition CMD_BUZZER :: string where
  "CMD_BUZZER = ''AT+BUZZ''"

definition CMD_STATUS :: string where
  "CMD_STATUS = ''AT+STATUS''"

definition CMD_SENSOR_READ :: string where
  "CMD_SENSOR_READ = ''AT+SENSOR''"

text \<open>Response prefixes.\<close>

definition RESPONSE_EVENT :: string where
  "RESPONSE_EVENT = ''EVENT:''"

definition RESPONSE_STATUS :: string where
  "RESPONSE_STATUS = ''STATUS:''"

definition RESPONSE_ERROR :: string where
  "RESPONSE_ERROR = ''ERROR:''"

definition RESPONSE_OK :: string where
  "RESPONSE_OK = ''OK''"

text \<open>Event types.\<close>

definition EVENT_DOOR_CLOSED :: string where
  "EVENT_DOOR_CLOSED = ''DOOR_CLOSED''"

definition EVENT_UNAUTHORIZED :: string where
  "EVENT_UNAUTHORIZED = ''UNAUTHORIZED''"

definition EVENT_SYSTEM_ERROR :: string where
  "EVENT_SYSTEM_ERROR = ''SYSTEM_ERROR''"

subsection \<open>Commands and their wire form\<close>

text \<open>
  Modelled from the spec: the type of the five commands. The header has no such type,
  only the five \<^verbatim>\<open>CMD_*\<close> macros, one per command, which name the commands:
  \<^verbatim>\<open>CMD_LOCK_OPEN\<close>, \<^verbatim>\<open>CMD_LOCK_CLOSE\<close>, \<^verbatim>\<open>CMD_BUZZER\<close>,
  \<^verbatim>\<open>CMD_STATUS\<close>, \<^verbatim>\<open>CMD_SENSOR_READ\<close>.
\<close>

datatype Command = LockOpen | LockClose | Buzz | StatusQuery | SensorRead

text \<open>The macro that holds the wire word of each command.\<close>

fun command_word :: "Command \<Rightarrow> string" where
  "command_word LockOpen = CMD_LOCK_OPEN"
| "command_word LockClose = CMD_LOCK_CLOSE"
| "command_word Buzz = CMD_BUZZER"
| "command_word StatusQuery = CMD_STATUS"
| "command_word SensorRead = CMD_SENSOR_READ"

text \<open>
  What is written on the wire for a command: its word, then the text for its target.
  The sources define the words only. The text that follows the word (the spec: each
  command is "optionally suffixed with a target identifier", as in \<^verbatim>\<open>AT+LOCK 1\<close>) is
  a parameter, empty for a command sent without a target.
\<close>

definition wire_form :: "Command \<Rightarrow> string \<Rightarrow> string" where
  "wire_form c suffix = command_word c @ suffix"

subsection \<open>\<^verbatim>\<open>FirebaseConfig.h\<close>: database paths\<close>

text \<open>
  Modelled from the spec: the bodies of the five path accessors of
  \<^verbatim>\<open>ParcelBoxFirebaseConfig\<close>. \<^verbatim>\<open>FirebaseConfig.cpp\<close> is kept out of the
  repository (the header says so); the header declares each accessor as
  \<^verbatim>\<open>static const char*\<close> with no argument and writes the path it returns in the
  comment beside it, and the spec lists the same five paths as the fixed path layout.
\<close>

definition getParcelsDatabasePath :: string where
  "getParcelsDatabasePath = ''/parcels''"

definition getDeviceStatusPath :: string where
  "getDeviceStatusPath = ''/device_status''"

definition getLocksStatusPath :: string where
  "getLocksStatusPath = ''/locks_status''"

definition getHistoryPath :: string where
  "getHistoryPath = ''/history''"

definition getConfigPath :: string where
  "getConfigPath = ''/config''"

subsection \<open>\<^verbatim>\<open>WiFiManagerCustom\<close>\<close>

text \<open>
  \<^verbatim>\<open>unsigned long\<close> has 32 bits on the ESP32; subtraction wraps around.
\<close>

type_synonym ulong = "32 word"

text \<open>
  The object: the library's \<^verbatim>\<open>WiFiManager\<close> instance, which \<^verbatim>\<open>reconnect\<close> never
  touches and which stays abstract, and the time of the last reconnection attempt.
\<close>

record 'w WiFiManagerCustom =
  wifiManager :: 'w
  lastReconnectAttempt :: ulong

definition RECONNECT_INTERVAL :: ulong where
  "RECONNECT_INTERVAL = 5000"

text \<open>The constructor sets \<^verbatim>\<open>lastReconnectAttempt(0)\<close>.\<close>

definition WiFiManagerCustom_init :: "'w \<Rightarrow> 'w WiFiManagerCustom" where
  "WiFiManagerCustom_init w = \<lparr>wifiManager = w, lastReconnectAttempt = 0\<rparr>"

text \<open>
  What \<^verbatim>\<open>WiFi.status()\<close> returns (the driver's \<^verbatim>\<open>wl_status_t\<close>). The two queries
  that \<^verbatim>\<open>reconnect()\<close> reads, \<^verbatim>\<open>WiFi.status()\<close> through \<^verbatim>\<open>isConnected()\<close> and
  \<^verbatim>\<open>millis()\<close>, change nothing; their results are arguments of the model.
\<close>

datatype wl_status_t =
    WL_NO_SHIELD
  | WL_IDLE_STATUS
  | WL_NO_SSID_AVAIL
  | WL_SCAN_COMPLETED
  | WL_CONNECTED
  | WL_CONNECT_FAILED
  | WL_CONNECTION_LOST
  | WL_DISCONNECTED

text \<open>
  The calls of \<^verbatim>\<open>reconnect()\<close> that act on the WiFi driver or the serial port, in the
  order it makes them.
\<close>

datatype call =
    Serial_println string
  | WiFi_disconnect bool
  | WiFi_reconnect

definition isConnected :: "wl_status_t \<Rightarrow> bool" where
  "isConnected status = (status = WL_CONNECTED)"

definition reconnect ::
  "wl_status_t \<Rightarrow> ulong \<Rightarrow> 'w WiFiManagerCustom \<Rightarrow> 'w WiFiManagerCustom \<times> call list" where
  "reconnect status now this =
     (if \<not> isConnected status then
        (let currentMillis = now in
         if currentMillis - lastReconnectAttempt this \<ge> RECONNECT_INTERVAL then
           (this\<lparr>lastReconnectAttempt := currentMillis\<rparr>,
            [Serial_println ''[WiFi] Attempting to reconnect...'',
             WiFi_disconnect False,
             WiFi_reconnect])
         else (this, []))
      else (this, []))"

text \<open>
  \<^verbatim>\<open>millis()\<close> of the Arduino core at \<open>t\<close> milliseconds after boot: the count
  truncated to \<^verbatim>\<open>unsigned long\<close>, so it starts again from 0 after \<open>2 ^ 32\<close> ms.
\<close>

definition millis :: "nat \<Rightarrow> ulong" where
  "millis t = of_nat t"

text \<open>
  A run of the control loop: \<^verbatim>\<open>reconnect()\<close> is called at the times of the list (in
  milliseconds since boot, each with the WiFi status found then). The result lists the
  times of the calls that started a reconnection attempt.
\<close>

definition attempted :: "call list \<Rightarrow> bool" where
  "attempted calls = (WiFi_reconnect \<in> set calls)"

fun attempt_times :: "'w WiFiManagerCustom \<Rightarrow> (wl_status_t \<times> nat) list \<Rightarrow> nat list" where
  "attempt_times this [] = []"
| "attempt_times this ((status, t) # rest) =
     (case reconnect status (millis t) this of
        (this', calls) \<Rightarrow>
          (if attempted calls then [t] else []) @ attempt_times this' rest)"

section \<open>Properties\<close>

subsection \<open>Wire form of the commands\<close>

text \<open>
  Claim C8. The wire form of each of the five commands is the fixed string of its
  protocol macro in \<^verbatim>\<open>PINS_CONFIG.h\<close>: LockOpen is \<^verbatim>\<open>AT+LOCK\<close>, LockClose is
  \<^verbatim>\<open>AT-LOCK\<close>, Buzz is \<^verbatim>\<open>AT+BUZZ\<close>, StatusQuery is \<^verbatim>\<open>AT+STATUS\<close> and SensorRead
  is \<^verbatim>\<open>AT+SENSOR\<close>, each followed by the suffix for its target, if it has one.
\<close>

theorem command_wire_forms:
  "(command_word LockOpen = CMD_LOCK_OPEN \<and> wire_form LockOpen suffix = ''AT+LOCK'' @ suffix)
   \<and> (command_word LockClose = CMD_LOCK_CLOSE
        \<and> wire_form LockClose suffix = ''AT-LOCK'' @ suffix)
   \<and> (command_word Buzz = CMD_BUZZER \<and> wire_form Buzz suffix = ''AT+BUZZ'' @ suffix)
   \<and> (command_word StatusQuery = CMD_STATUS
        \<and> wire_form StatusQuery suffix = ''AT+STATUS'' @ suffix)
   \<and> (command_word SensorRead = CMD_SENSOR_READ
        \<and> wire_form SensorRead suffix = ''AT+SENSOR'' @ suffix)
   \<and> wire_form c [] = command_word c"
  by (simp add: wire_form_def CMD_LOCK_OPEN_def CMD_LOCK_CLOSE_def CMD_BUZZER_def
      CMD_STATUS_def CMD_SENSOR_READ_def)

text \<open>
  The commands of the spec's scenarios, \<^verbatim>\<open>AT+LOCK 1\<close> and \<^verbatim>\<open>AT-LOCK 1\<close>, and a status
  query without a target.
\<close>

theorem command_wire_forms_witness:
  "wire_form LockOpen '' 1'' = ''AT+LOCK 1''
   \<and> wire_form LockClose '' 1'' = ''AT-LOCK 1''
   \<and> wire_form StatusQuery [] = ''AT+STATUS''"
  using command_wire_forms [of "'' 1''" StatusQuery] command_wire_forms [of "[]" StatusQuery]
  by simp

subsection \<open>Database paths\<close>

text \<open>
  Claim C9. The five path accessors of \<^verbatim>\<open>ParcelBoxFirebaseConfig\<close> return the fixed
  path layout: \<^verbatim>\<open>/parcels\<close>, \<^verbatim>\<open>/device_status\<close>, \<^verbatim>\<open>/locks_status\<close>,
  \<^verbatim>\<open>/history\<close> and \<^verbatim>\<open>/config\<close>.
\<close>

theorem database_paths:
  "getParcelsDatabasePath = ''/parcels''
   \<and> getDeviceStatusPath = ''/device_status''
   \<and> getLocksStatusPath = ''/locks_status''
   \<and> getHistoryPath = ''/history''
   \<and> getConfigPath = ''/config''"
  by (simp add: getParcelsDatabasePath_def getDeviceStatusPath_def getLocksStatusPath_def
      getHistoryPath_def getConfigPath_def)

subsection \<open>WiFi reconnection\<close>

lemma elapsed_le:
  assumes "t0 \<le> t"
  shows "unat (millis t - millis t0) \<le> t - t0"
proof -
  have "millis t - millis t0 = (of_nat (t - t0) :: ulong)"
    using assms by (simp add: millis_def)
  then show ?thesis
    by (simp add: unat_of_nat)
qed

lemma reconnect_cases:
  "reconnect status now this =
     (if status \<noteq> WL_CONNECTED \<and> RECONNECT_INTERVAL \<le> now - lastReconnectAttempt this
      then (this\<lparr>lastReconnectAttempt := now\<rparr>,
            [Serial_println ''[WiFi] Attempting to reconnect...'',
             WiFi_disconnect False, WiFi_reconnect])
      else (this, []))"
  by (simp add: reconnect_def isConnected_def Let_def)

lemma attempted_reconnect:
  "attempted (snd (reconnect status now this)) =
     (status \<noteq> WL_CONNECTED \<and> RECONNECT_INTERVAL \<le> now - lastReconnectAttempt this)"
  by (simp add: reconnect_cases attempted_def)

lemma interval_elapsed:
  assumes "t0 \<le> t" and "RECONNECT_INTERVAL \<le> millis t - millis t0"
  shows "t0 + 5000 \<le> t"
proof -
  have "5000 \<le> unat (millis t - millis t0)"
    using assms(2) by (simp add: RECONNECT_INTERVAL_def word_le_nat_alt)
  also have "\<dots> \<le> t - t0"
    using assms(1) by (rule elapsed_le)
  finally show ?thesis
    using assms(1) by simp
qed

lemma attempt_times_after:
  assumes "sorted (map snd cs)"
    and "lastReconnectAttempt this = millis t0"
    and "\<forall>t \<in> set (map snd cs). t0 \<le> t"
  shows "\<forall>t \<in> set (attempt_times this cs). t0 + 5000 \<le> t"
  using assms
proof (induction cs arbitrary: this t0)
  case Nil
  then show ?case by simp
next
  case (Cons c cs)
  obtain status t where c: "c = (status, t)" by (cases c)
  have t0t: "t0 \<le> t" using Cons.prems(3) c by simp
  have rest_sorted: "sorted (map snd cs)" using Cons.prems(1) by simp
  have rest_after: "\<forall>u \<in> set (map snd cs). t \<le> u" using Cons.prems(1) c by simp
  show ?case
  proof (cases "status \<noteq> WL_CONNECTED \<and> RECONNECT_INTERVAL \<le> millis t - lastReconnectAttempt this")
    case True
    then have gap: "t0 + 5000 \<le> t"
      using interval_elapsed [OF t0t] Cons.prems(2) by simp
    have "\<forall>u \<in> set (attempt_times (this\<lparr>lastReconnectAttempt := millis t\<rparr>) cs). t + 5000 \<le> u"
      by (rule Cons.IH [OF rest_sorted _ rest_after]) simp
    with gap True show ?thesis
      by (auto simp: c reconnect_cases attempted_def)
  next
    case False
    have "\<forall>u \<in> set (map snd cs). t0 \<le> u"
      using rest_after t0t by auto
    then have "\<forall>u \<in> set (attempt_times this cs). t0 + 5000 \<le> u"
      by (rule Cons.IH [OF rest_sorted Cons.prems(2)])
    with False show ?thesis
      by (auto simp: c reconnect_cases attempted_def)
  qed
qed

lemma attempt_times_spaced:
  assumes "sorted (map snd cs)"
  shows "sorted_wrt (\<lambda>a b. a + 5000 \<le> b) (attempt_times this cs)"
  using assms
proof (induction cs arbitrary: this)
  case Nil
  then show ?case by simp
next
  case (Cons c cs)
  obtain status t where c: "c = (status, t)" by (cases c)
  have rest_sorted: "sorted (map snd cs)" using Cons.prems by simp
  have rest_after: "\<forall>u \<in> set (map snd cs). t \<le> u" using Cons.prems c by simp
  show ?case
  proof (cases "status \<noteq> WL_CONNECTED \<and> RECONNECT_INTERVAL \<le> millis t - lastReconnectAttempt this")
    case True
    have "\<forall>u \<in> set (attempt_times (this\<lparr>lastReconnectAttempt := millis t\<rparr>) cs). t + 5000 \<le> u"
      by (rule attempt_times_after [OF rest_sorted _ rest_after]) simp
    with True Cons.IH [OF rest_sorted] show ?thesis
      by (auto simp: c reconnect_cases attempted_def)
  next
    case False
    with Cons.IH [OF rest_sorted] show ?thesis
      by (auto simp: c reconnect_cases attempted_def)
  qed
qed

text \<open>
  Claim C10. \<^verbatim>\<open>reconnect()\<close> starts a reconnection attempt (\<^verbatim>\<open>WiFi.disconnect(false)\<close>,
  which leaves the radio on, then \<^verbatim>\<open>WiFi.reconnect()\<close>) and stores the current time in
  \<^verbatim>\<open>lastReconnectAttempt\<close> exactly when \<^verbatim>\<open>isConnected()\<close> is false and at least
  \<^verbatim>\<open>RECONNECT_INTERVAL\<close> = 5000 ms have passed since \<^verbatim>\<open>lastReconnectAttempt\<close>, as
  the 32-bit difference of the two times measures it. In every other case the object is
  returned unchanged and the method makes no call: it has only read \<^verbatim>\<open>WiFi.status()\<close>
  for \<^verbatim>\<open>isConnected()\<close> and, when disconnected, \<^verbatim>\<open>millis()\<close>. When
  \<^verbatim>\<open>lastReconnectAttempt\<close> was read from \<^verbatim>\<open>millis()\<close> at time \<open>t0\<close>, a call at a
  later time \<open>t\<close> starts an attempt only if \<open>t0 + 5000 \<le> t\<close>, also across the
  wrap-around of \<^verbatim>\<open>millis()\<close>. So in a run of calls at non-decreasing times, any two
  attempts are at least 5000 ms apart.
\<close>

theorem reconnect_rate_limited:
  "reconnect status now this =
     (if status \<noteq> WL_CONNECTED \<and> 5000 \<le> unat (now - lastReconnectAttempt this)
      then (this\<lparr>lastReconnectAttempt := now\<rparr>,
            [Serial_println ''[WiFi] Attempting to reconnect...'',
             WiFi_disconnect False, WiFi_reconnect])
      else (this, []))
   \<and> (lastReconnectAttempt this = millis t0 \<and> t0 \<le> t
        \<and> attempted (snd (reconnect status (millis t) this))
      \<longrightarrow> \<not> isConnected status \<and> t0 + 5000 \<le> t)
   \<and> (sorted (map snd cs)
      \<longrightarrow> sorted_wrt (\<lambda>a b. a + 5000 \<le> b) (attempt_times this cs))"
proof (intro conjI impI)
  show "reconnect status now this =
     (if status \<noteq> WL_CONNECTED \<and> 5000 \<le> unat (now - lastReconnectAttempt this)
      then (this\<lparr>lastReconnectAttempt := now\<rparr>,
            [Serial_println ''[WiFi] Attempting to reconnect...'',
             WiFi_disconnect False, WiFi_reconnect])
      else (this, []))"
    by (simp add: reconnect_cases RECONNECT_INTERVAL_def word_le_nat_alt)
next
  assume a: "lastReconnectAttempt this = millis t0 \<and> t0 \<le> t
        \<and> attempted (snd (reconnect status (millis t) this))"
  then show "\<not> isConnected status"
    by (simp add: attempted_reconnect isConnected_def)
  from a have "t0 \<le> t" and "RECONNECT_INTERVAL \<le> millis t - millis t0"
    by (auto simp: attempted_reconnect)
  then show "t0 + 5000 \<le> t"
    by (rule interval_elapsed)
next
  assume "sorted (map snd cs)"
  then show "sorted_wrt (\<lambda>a b. a + 5000 \<le> b) (attempt_times this cs)"
    by (rule attempt_times_spaced)
qed

text \<open>
  A run from a fresh object: disconnected at 6000 ms (attempt), still disconnected at
  7000 ms (too early), connected at 12000 ms, disconnected again at 13000 ms (attempt).
  And a run across the wrap-around: the last attempt was 1000 ms before \<open>2 ^ 32\<close> ms,
  the calls come 2000 ms later (too early) and 5500 ms later (attempt), when
  \<^verbatim>\<open>millis()\<close> reads 4500.
\<close>

theorem reconnect_rate_limited_witness:
  "sorted (map snd [(WL_DISCONNECTED, 6000), (WL_DISCONNECTED, 7000),
                    (WL_CONNECTED, 12000), (WL_DISCONNECTED, 13000 :: nat)])
   \<and> attempt_times (WiFiManagerCustom_init ())
        [(WL_DISCONNECTED, 6000), (WL_DISCONNECTED, 7000),
         (WL_CONNECTED, 12000), (WL_DISCONNECTED, 13000)] = [6000, 13000]
   \<and> sorted_wrt (\<lambda>a b. a + 5000 \<le> b)
        (attempt_times (WiFiManagerCustom_init ())
          [(WL_DISCONNECTED, 6000), (WL_DISCONNECTED, 7000),
           (WL_CONNECTED, 12000), (WL_DISCONNECTED, 13000)])
   \<and> lastReconnectAttempt (WiFiManagerCustom_init ()) = millis 0
   \<and> attempted (snd (reconnect WL_DISCONNECTED (millis 6000) (WiFiManagerCustom_init ())))
   \<and> \<not> isConnected WL_DISCONNECTED
   \<and> sorted (map snd [(WL_DISCONNECTED, 4294968296), (WL_DISCONNECTED, 4294971796 :: nat)])
   \<and> attempt_times \<lparr>wifiManager = (), lastReconnectAttempt = millis 4294966296\<rparr>
        [(WL_DISCONNECTED, 4294968296), (WL_DISCONNECTED, 4294971796)] = [4294971796]
   \<and> millis 4294971796 = 4500"
  using reconnect_rate_limited [of WL_DISCONNECTED "millis 6000" "WiFiManagerCustom_init ()"
      0 6000 "[(WL_DISCONNECTED, 6000), (WL_DISCONNECTED, 7000),
               (WL_CONNECTED, 12000), (WL_DISCONNECTED, 13000)]"]
    reconnect_rate_limited [of WL_DISCONNECTED "millis 4294971796"
      "\<lparr>wifiManager = (), lastReconnectAttempt = millis 4294966296\<rparr>"
      4294966296 4294971796
      "[(WL_DISCONNECTED, 4294968296), (WL_DISCONNECTED, 4294971796)]"]
  by (simp add: reconnect_cases attempted_def millis_def WiFiManagerCustom_init_def
      RECONNECT_INTERVAL_def isConnected_def)

end
